theory Spec2Isabelle
  imports Main
begin

section \<open>Challenge filter (main.py, BotManager.is\_challenge\_acceptable)\<close>

text \<open>
  A challenge is the JSON object the server lists under \<open>in\<close>. Every key the filter
  reads with \<open>.get\<close> is an optional field: \<open>None\<close> is an absent key. The sub-objects
  \<open>challenger\<close>, \<open>variant\<close> and \<open>timeControl\<close> are read with a default of the empty
  dictionary, so an absent sub-object is the record whose fields are all \<open>None\<close>.
  Fields that are present carry values of the type the server's API gives them.
  The top-level key \<open>rated\<close> of the challenge is part of the record although
  \<open>is_challenge_acceptable\<close> never reads it: the function reads \<open>rated\<close> from the
  \<open>challenger\<close> sub-object.
\<close>

record time_control =
  tc_type :: "string option"
  tc_daysPerTurn :: "int option"
  tc_limit :: "int option"
  tc_increment :: "int option"

record challenger =
  c_title :: "string option"
  c_rated :: "bool option"
  c_rating :: "int option"

record challenge =
  ch_id :: string
  ch_challenger :: challenger
  ch_rematch :: "bool option"
  ch_rated :: "bool option"
  ch_variant_key :: "string option"
  ch_timeControl :: time_control

record criteria =
  min_rating :: int
  max_rating :: int
  time_controls :: "(int \<times> int) list"
  variants :: "string list"
  rated :: bool
  allow_rematches :: bool
  deny_bots :: bool

text \<open>The module constant \<open>ACCEPTANCE_CRITERIA\<close>.\<close>

definition ACCEPTANCE_CRITERIA :: criteria where
  "ACCEPTANCE_CRITERIA =
     \<lparr> min_rating = 1500, max_rating = 3000,
       time_controls = [(60, 0), (180, 0), (180, 2), (300, 0), (300, 5), (600, 0), (600, 10)],
       variants = [''standard''],
       rated = False, allow_rematches = True, deny_bots = True \<rparr>"

text \<open>The reason texts of the source, one constructor for each message.\<close>

datatype reason =
    RematchesDisabled
  | RematchBotDenied
  | RematchAccepted
  | BotDenied
  | UnsupportedVariant "string option"
  | UnsupportedMode bool
  | UnsupportedGameType
  | RatingOutOfRange int
  | BadTimeControl
  | ChallengeAccepted
  | ProcessingError

text \<open>
  The exceptions the modelled code raises or receives. \<open>IllegalMoveError\<close> and
  \<open>InvalidMoveError\<close> are the two \<open>ValueError\<close> subclasses \<open>push_uci\<close> raises.
\<close>

datatype push_error = IllegalMoveError | InvalidMoveError

datatype py_error = KeyError | PushError push_error | EngineError | LaunchError | ClientError

text \<open>\<open>d.get(key, default)\<close> on an optional field.\<close>

definition dict_get :: "'a option \<Rightarrow> 'a \<Rightarrow> 'a" where
  "dict_get field dflt = (case field of None \<Rightarrow> dflt | Some v \<Rightarrow> v)"

text \<open>
  \<open>parse_time_control\<close> indexes \<open>tc['type']\<close>, which raises \<open>KeyError\<close> on an absent
  key; the other keys are read with defaults.
\<close>

definition parse_time_control :: "time_control \<Rightarrow> py_error + (int \<times> int)" where
  "parse_time_control tc =
     (case tc_type tc of
        None \<Rightarrow> Inl KeyError
      | Some ty \<Rightarrow>
          if ty = ''unlimited'' then Inr (0, 0)
          else if ty = ''correspondence''
          then Inr (dict_get (tc_daysPerTurn tc) 1 * 86400, 0)
          else Inr (dict_get (tc_limit tc) 0, dict_get (tc_increment tc) 0))"

text \<open>
  \<open>if challenger.get('rating')\<close> is Python truthiness: the range check runs for a
  rating that is present and not zero. The result is the rating the check rejects, if any.
\<close>

definition rating_rejected :: "criteria \<Rightarrow> int option \<Rightarrow> int option" where
  "rating_rejected crit rating =
     (case rating of
        None \<Rightarrow> None
      | Some r \<Rightarrow>
          if r \<noteq> 0 \<and> \<not> (min_rating crit \<le> r \<and> r \<le> max_rating crit) then Some r else None)"

text \<open>
  The \<open>any(...)\<close> over the allowed time controls.
\<close>

definition tc_acceptable :: "criteria \<Rightarrow> int \<times> int \<Rightarrow> bool" where
  "tc_acceptable crit parsed_tc =
     list_ex (\<lambda>(t, i). fst parsed_tc = t \<and> i \<le> snd parsed_tc) (time_controls crit)"

text \<open>
  The checks for an ordinary challenge, in the order of the source. The whole body runs
  under \<open>try\<close>; the one exception this model can raise (\<open>KeyError\<close> from
  \<open>parse_time_control\<close>) is turned into the generic denial, as the handler does.
\<close>

definition check_regular :: "criteria \<Rightarrow> challenge \<Rightarrow> bool \<times> reason" where
  "check_regular crit chal =
     (let challenger = ch_challenger chal;
          tc = ch_timeControl chal;
          variant = ch_variant_key chal;
          rated_flag = dict_get (c_rated challenger) False
      in
      if deny_bots crit \<and> c_title challenger = Some ''BOT'' then (False, BotDenied)
      else if (case variant of None \<Rightarrow> True | Some v \<Rightarrow> v \<notin> set (variants crit))
      then (False, UnsupportedVariant variant)
      else if rated_flag \<noteq> rated crit then (False, UnsupportedMode rated_flag)
      else if tc_type tc \<notin> {Some ''clock'', Some ''correspondence'', Some ''unlimited''}
      then (False, UnsupportedGameType)
      else
        (case parse_time_control tc of
           Inl e \<Rightarrow> (False, ProcessingError)
         | Inr parsed_tc \<Rightarrow>
             (case rating_rejected crit (c_rating challenger) of
                Some rating \<Rightarrow> (False, RatingOutOfRange rating)
              | None \<Rightarrow>
                  if \<not> tc_acceptable crit parsed_tc then (False, BadTimeControl)
                  else (True, ChallengeAccepted))))"

definition is_challenge_acceptable :: "criteria \<Rightarrow> challenge \<Rightarrow> bool \<times> reason" where
  "is_challenge_acceptable crit chal =
     (let challenger = ch_challenger chal;
          is_rematch = dict_get (ch_rematch chal) False
      in
      if is_rematch then
        (if \<not> allow_rematches crit then (False, RematchesDisabled)
         else if deny_bots crit \<and> c_title challenger = Some ''BOT''
         then (False, RematchBotDenied)
         else (True, RematchAccepted))
      else check_regular crit chal)"


section \<open>Game sessions (main.py, BotManager)\<close>

subsection \<open>The chess library and the outside world, as parameters\<close>

text \<open>
  The board comes from the python-chess package, which is not part of the repository.
  The session code is modelled over an interface of the operations it calls, for any
  board type \<open>'b\<close>:
  \<^item> \<open>Board_fen fen\<close> is \<open>chess.Board(fen)\<close>; \<open>None\<close> is the \<open>ValueError\<close> of a FEN
    the library rejects;
  \<^item> \<open>push_uci board move\<close> is \<open>board.push_uci(move)\<close>: the board after the move, or the
    exception raised (the board is then as before);
  \<^item> \<open>stack_uci board\<close> is \<open>[m.uci() for m in board.move_stack]\<close>;
  \<^item> \<open>turn board\<close> is \<open>board.turn\<close> (\<open>chess.WHITE\<close> is \<open>True\<close>);
  \<^item> \<open>in_legal_moves board move\<close> is \<open>move in board.legal_moves\<close>.
  Moves are UCI strings throughout.
\<close>

record 'b chess_lib =
  Board_fen :: "string \<Rightarrow> 'b option"
  push_uci :: "'b \<Rightarrow> string \<Rightarrow> push_error + 'b"
  stack_uci :: "'b \<Rightarrow> string list"
  turn :: "'b \<Rightarrow> bool"
  in_legal_moves :: "'b \<Rightarrow> string \<Rightarrow> bool"

abbreviation (input) WHITE :: bool where "WHITE \<equiv> True"
abbreviation (input) BLACK :: bool where "BLACK \<equiv> False"

definition STARTING_FEN :: string where
  "STARTING_FEN = ''rnbqkbnr/pppppppp/8/8/8/8/PPPPPPPP/RNBQKBNR w KQkq - 0 1''"

definition MAX_RETRIES :: nat where
  "MAX_RETRIES = 3"

text \<open>
  What the outside world answers. An HTTP request either raises (a connection error, a
  timeout, a body that is not JSON) or yields a response with a status and a body. A call
  of \<open>engine.play\<close> under the five-second \<open>async_timeout\<close> yields a result whose move may
  be \<open>None\<close>, runs into the timeout, finds the engine terminated, or raises something else.
\<close>

datatype 'a http_outcome = RequestRaised | Response int 'a

datatype play_outcome =
    PlayResult "string option"
  | PlayTimeout
  | PlayEngineTerminated
  | PlayOtherError

record snapshot =
  snap_fen :: "string option"

text \<open>
  One handler call makes each kind of request at most once, except the move submission,
  whose outcome is given for each attempt number.
\<close>

record 'b world =
  engine_play :: "'b \<Rightarrow> play_outcome"
  post_move :: "nat \<Rightarrow> unit http_outcome"
  fetch_game :: "snapshot http_outcome"
  engine_quit_raises :: bool
  engine_launch_raises :: bool

text \<open>The calls a handler makes on the outside world, in order.\<close>

datatype effect =
    EnginePlay
  | PostMove string string
  | Sleep nat
  | FetchGame string
  | EngineQuit
  | EngineLaunch

record 'b game_data =
  gd_board :: 'b
  gd_is_white :: bool

text \<open>
  The part of \<open>BotManager\<close> the handlers use: the dictionary \<open>self.games\<close>, whether
  \<open>self.engine\<close> holds a handle, and the calls made so far.
\<close>

record 'b bot =
  games :: "string \<rightharpoonup> 'b game_data"
  engine :: bool
  trace :: "effect list"

definition emit :: "effect \<Rightarrow> 'b bot \<Rightarrow> 'b bot" where
  "emit e st = st\<lparr>trace := trace st @ [e]\<rparr>"

text \<open>
  The board of a game is a mutable object reached through \<open>self.games[game_id]\<close>;
  \<open>set_board\<close> records its new value there.
\<close>

definition set_board :: "string \<Rightarrow> 'b \<Rightarrow> 'b bot \<Rightarrow> 'b bot" where
  "set_board game_id b st =
     (case games st game_id of
        None \<Rightarrow> st
      | Some game_data \<Rightarrow> st\<lparr>games := (games st)(game_id \<mapsto> game_data\<lparr>gd_board := b\<rparr>)\<rparr>)"

subsection \<open>Splitting the move list\<close>

text \<open>
  \<open>str.split()\<close> with no argument: the maximal runs of characters that are not
  whitespace. A \<open>char\<close> stands for the code point of the same number, so a string here
  is a Python string of code points below 256; the whitespace characters are those of
  them for which \<open>str.isspace\<close> holds: U+0009 to U+000D, U+001C to U+0020, U+0085 and
  U+00A0.
\<close>

definition is_space :: "char \<Rightarrow> bool" where
  "is_space c = (c \<in> set [CHR '' '', CHR 0x09, CHR 0x0A, CHR 0x0B, CHR 0x0C, CHR 0x0D,
                           CHR 0x1C, CHR 0x1D, CHR 0x1E, CHR 0x1F, CHR 0x85, CHR 0xA0])"

fun split_from :: "string \<Rightarrow> string \<Rightarrow> string list" where
  "split_from [] w = (if w = [] then [] else [w])"
| "split_from (c # cs) w =
     (if is_space c then (if w = [] then split_from cs [] else w # split_from cs [])
      else split_from cs (w @ [c]))"

definition split_ws :: "string \<Rightarrow> string list" where
  "split_ws s = split_from s []"

subsection \<open>reload\_game\_state\<close>

text \<open>
  The whole body is under \<open>try\<close>: a request that raises, a FEN the library rejects and a
  missing game are logged and leave the state as it is. The response's status is not
  looked at.
\<close>

definition reload_game_state ::
  "'b chess_lib \<Rightarrow> 'b world \<Rightarrow> string \<Rightarrow> 'b bot \<Rightarrow> 'b bot" where
  "reload_game_state lib env game_id st =
     (let st1 = emit (FetchGame game_id) st in
      case fetch_game env of
        RequestRaised \<Rightarrow> st1
      | Response status game_json \<Rightarrow>
          (let new_fen = dict_get (snap_fen game_json) STARTING_FEN in
           case Board_fen lib new_fen of
             None \<Rightarrow> st1
           | Some b \<Rightarrow> set_board game_id b st1))"

subsection \<open>make\_move\<close>

text \<open>
  The loop \<open>for attempt in range(MAX_RETRIES)\<close>. On status 200 the move is pushed on the
  game's board; \<open>IllegalMoveError\<close> there reloads the game, and any other exception of the
  push reaches the loop's \<open>except Exception\<close> like a failed request does.
\<close>

fun make_move_loop ::
  "'b chess_lib \<Rightarrow> 'b world \<Rightarrow> string \<Rightarrow> string \<Rightarrow> nat list \<Rightarrow> 'b bot \<Rightarrow> bool \<times> 'b bot" where
  "make_move_loop lib env game_id move [] st = (False, st)"
| "make_move_loop lib env game_id move (attempt # rest) st =
     (let st1 = emit (PostMove game_id move) st in
      case post_move env attempt of
        RequestRaised \<Rightarrow> make_move_loop lib env game_id move rest (emit (Sleep 1) st1)
      | Response status body \<Rightarrow>
          if status = 200 then
            (case games st1 game_id of
               None \<Rightarrow> (True, st1)
             | Some game_data \<Rightarrow>
                 (case push_uci lib (gd_board game_data) move of
                    Inr b \<Rightarrow> (True, set_board game_id b st1)
                  | Inl IllegalMoveError \<Rightarrow> (True, reload_game_state lib env game_id st1)
                  | Inl InvalidMoveError \<Rightarrow>
                      make_move_loop lib env game_id move rest (emit (Sleep 1) st1)))
          else (False, st1))"

definition make_move ::
  "'b chess_lib \<Rightarrow> 'b world \<Rightarrow> string \<Rightarrow> string \<Rightarrow> 'b bot \<Rightarrow> bool \<times> 'b bot" where
  "make_move lib env game_id move st =
     make_move_loop lib env game_id move [0..<MAX_RETRIES] st"

subsection \<open>restart\_engine\<close>

text \<open>
  The result is the state and the exception that leaves the function, if any: the
  handler logs and re-raises whatever \<open>quit\<close>, \<open>popen_uci\<close> or \<open>configure\<close> raised.
\<close>

definition restart_engine :: "'b world \<Rightarrow> 'b bot \<Rightarrow> 'b bot \<times> py_error option" where
  "restart_engine env st =
     (if engine st \<and> engine_quit_raises env then (emit EngineQuit st, Some EngineError)
      else
        (let st1 = (if engine st then emit (Sleep 1) (emit EngineQuit st) else st);
             st2 = emit EngineLaunch st1
         in if engine_launch_raises env then (st2, Some LaunchError)
            else (st2\<lparr>engine := True\<rparr>, None)))"


subsection \<open>handle\_game\_state\<close>

text \<open>
  The loop over the new moves. The board is mutated in place, so when a push raises, the
  moves before it stay applied: the result is the board reached and the exception, if any.
\<close>

fun apply_moves :: "'b chess_lib \<Rightarrow> 'b \<Rightarrow> string list \<Rightarrow> 'b \<times> push_error option" where
  "apply_moves lib b [] = (b, None)"
| "apply_moves lib b (move # rest) =
     (case push_uci lib b move of
        Inl e \<Rightarrow> (b, Some e)
      | Inr b' \<Rightarrow> apply_moves lib b' rest)"

text \<open>
  The move computation and commit (the inner \<open>try\<close> of \<open>handle_game_state\<close>). The
  result is the state and the exception that leaves the inner \<open>try\<close>, if any:
  \<open>TimeoutError\<close> is handled by logging, \<open>EngineTerminatedError\<close> by calling
  \<open>restart_engine\<close> inside the handler, whose own exception leaves the inner \<open>try\<close>.
\<close>

definition compute_and_commit ::
  "'b chess_lib \<Rightarrow> 'b world \<Rightarrow> string \<Rightarrow> 'b \<Rightarrow> 'b bot \<Rightarrow> 'b bot \<times> py_error option" where
  "compute_and_commit lib env game_id board st =
     (let st1 = emit EnginePlay st in
      case engine_play env board of
        PlayTimeout \<Rightarrow> (st1, None)
      | PlayEngineTerminated \<Rightarrow> restart_engine env st1
      | PlayOtherError \<Rightarrow> (st1, Some EngineError)
      | PlayResult None \<Rightarrow> (st1, None)
      | PlayResult (Some move) \<Rightarrow>
          if in_legal_moves lib board move
          then (snd (make_move lib env game_id move st1), None)
          else (st1, None))"

text \<open>
  The body of the outer \<open>try\<close>. \<open>moves\<close> is the event's \<open>moves\<close> key, read with the
  default \<open>''\<close>. Neither \<open>is_white\<close> nor the event's \<open>isMyTurn\<close> is read after the
  synchronisation: the computation follows every successful synchronisation.
\<close>

definition handle_game_state_body ::
  "'b chess_lib \<Rightarrow> 'b world \<Rightarrow> string option \<Rightarrow> string \<Rightarrow> 'b bot \<Rightarrow> 'b bot \<times> py_error option" where
  "handle_game_state_body lib env moves game_id st =
     (case games st game_id of
        None \<Rightarrow> (st, None)
      | Some game_data \<Rightarrow>
          (let board = gd_board game_data;
               current_moves = stack_uci lib board;
               new_moves = split_ws (dict_get moves [])
           in
           if length new_moves < length current_moves
              \<or> take (length current_moves) new_moves \<noteq> current_moves
           then (reload_game_state lib env game_id st, None)
           else
             (case apply_moves lib board (drop (length current_moves) new_moves) of
                (b, Some IllegalMoveError) \<Rightarrow>
                  (reload_game_state lib env game_id (set_board game_id b st), None)
              | (b, Some InvalidMoveError) \<Rightarrow>
                  (set_board game_id b st, Some (PushError InvalidMoveError))
              | (b, None) \<Rightarrow> compute_and_commit lib env game_id b (set_board game_id b st))))"

text \<open>
  The outer \<open>except Exception\<close> logs whatever the body raised and does not re-raise
  it. The result is, as for the other handlers, the state and the exception that leaves
  the function.
\<close>

definition handle_game_state ::
  "'b chess_lib \<Rightarrow> 'b world \<Rightarrow> string option \<Rightarrow> string \<Rightarrow> 'b bot \<Rightarrow> 'b bot \<times> py_error option" where
  "handle_game_state lib env moves game_id st =
     (case handle_game_state_body lib env moves game_id st of
        (st', Some e) \<Rightarrow> (st', None)
      | (st', None) \<Rightarrow> (st', None))"

subsection \<open>handle\_initial\_state\<close>

text \<open>
  \<open>game_data\<close> is the dictionary with the keys \<open>board\<close> and \<open>is_white\<close>; as a condition
  it is true, being a dictionary that is not empty.
\<close>

definition dict_truthy :: "'b game_data \<Rightarrow> bool" where
  "dict_truthy game_data = True"

text \<open>
  The result is the state and the exception that leaves the function, if any. A missing
  game is the \<open>KeyError\<close> of \<open>self.games[game_id]\<close>, which the \<open>except Exception\<close>
  answers with \<open>restart_engine\<close>. A \<open>ValueError\<close> while replaying the history is logged
  and the function returns.
\<close>

definition handle_initial_state ::
  "'b chess_lib \<Rightarrow> 'b world \<Rightarrow> string option \<Rightarrow> string \<Rightarrow> 'b bot \<Rightarrow> 'b bot \<times> py_error option" where
  "handle_initial_state lib env moves game_id st =
     (case games st game_id of
        None \<Rightarrow> restart_engine env st
      | Some game_data \<Rightarrow>
          (let board = gd_board game_data;
               replay = (case moves of
                           None \<Rightarrow> (board, None)
                         | Some ms \<Rightarrow>
                             if ms \<noteq> [] then apply_moves lib board (split_ws ms)
                             else (board, None));
               st1 = set_board game_id (fst replay) st
           in
           case snd replay of
             Some e \<Rightarrow> (st1, None)
           | None \<Rightarrow>
               if (turn lib (fst replay) = WHITE \<and> dict_truthy game_data)
                  \<or> (turn lib (fst replay) = BLACK \<and> \<not> dict_truthy game_data)
               then handle_game_state lib env (Some (dict_get moves [])) game_id st1
               else (st1, None)))"

subsection \<open>process\_game: one event of the stream\<close>

text \<open>
  The events of a game's stream that reach the board: \<open>gameFull\<close> with the \<open>moves\<close> of
  its \<open>state\<close>, \<open>gameState\<close> with its \<open>moves\<close>, the three terminal types, and any other
  type. Each event is handled under \<open>try\<close>: an exception of a handler is logged and the
  loop goes on to the next event. The result says whether the loop continues.
\<close>

datatype event =
    GameFull "string option"
  | GameState "string option"
  | GameEnd
  | OtherEvent

definition process_event ::
  "'b chess_lib \<Rightarrow> 'b world \<Rightarrow> string \<Rightarrow> event \<Rightarrow> 'b bot \<Rightarrow> bool \<times> 'b bot" where
  "process_event lib env game_id ev st =
     (case ev of
        GameFull moves \<Rightarrow>
          (case handle_initial_state lib env moves game_id st of
             (st', Some e) \<Rightarrow> (True, st')
           | (st', None) \<Rightarrow> (True, st'))
      | GameState moves \<Rightarrow>
          (case handle_game_state lib env moves game_id st of
             (st', Some e) \<Rightarrow> (True, st')
           | (st', None) \<Rightarrow> (True, st'))
      | GameEnd \<Rightarrow> (False, st)
      | OtherEvent \<Rightarrow> (True, st))"

subsection \<open>A small library instance for running the handlers\<close>

text \<open>
  To run the handlers on concrete inputs, the interface is instantiated with boards that
  are a FEN and the moves pushed since, over a given legality relation. A move shorter
  than four characters is not UCI syntax. The side to move is the FEN's second field,
  flipped by every move pushed.
\<close>

record list_board =
  lb_fen :: string
  lb_stack :: "string list"

definition fen_white_to_move :: "string \<Rightarrow> bool" where
  "fen_white_to_move fen =
     (case split_ws fen of
        _ # side # _ \<Rightarrow> side = ''w''
      | _ \<Rightarrow> True)"

definition list_chess :: "(list_board \<Rightarrow> string \<Rightarrow> bool) \<Rightarrow> list_board chess_lib" where
  "list_chess legal =
     \<lparr> Board_fen = (\<lambda>fen. Some \<lparr>lb_fen = fen, lb_stack = []\<rparr>),
       push_uci = (\<lambda>b move.
          if length move < 4 then Inl InvalidMoveError
          else if legal b move then Inr (b\<lparr>lb_stack := lb_stack b @ [move]\<rparr>)
          else Inl IllegalMoveError),
       stack_uci = lb_stack,
       turn = (\<lambda>b. fen_white_to_move (lb_fen b) = even (length (lb_stack b))),
       in_legal_moves = legal \<rparr>"


section \<open>The poller (main.py, BotManager.poll\_events)\<close>

text \<open>
  \<open>safe_request\<close> returns the body of a response with status 200 and \<open>None\<close> for any
  other status or any exception.
\<close>

definition safe_request :: "'a http_outcome \<Rightarrow> 'a option" where
  "safe_request outcome =
     (case outcome of
        RequestRaised \<Rightarrow> None
      | Response status body \<Rightarrow> if status = 200 then Some body else None)"

record game =
  g_gameId :: string
  g_color :: "string option"

text \<open>
  What the server answers during one cycle: the challenge list (the body's \<open>in\<close> key,
  which may be absent), the answer to accepting and to declining each challenge id, and
  the playing list (the body's \<open>nowPlaying\<close> key).
\<close>

record poll_world =
  get_challenges :: "challenge list option http_outcome"
  post_accept :: "string \<Rightarrow> unit http_outcome"
  post_decline :: "string \<Rightarrow> unit http_outcome"
  get_playing :: "game list option http_outcome"

datatype poll_effect =
    GetChallenges
  | Accept string
  | Decline string
  | GetPlaying
  | CreateTask string
  | SleepJitter
  | SleepSeconds nat

text \<open>
  \<open>accept_challenge\<close> awaits \<open>session.post\<close> directly: an exception of the request
  leaves the function, and the response is not looked at. \<open>decline_challenge\<close> goes
  through \<open>safe_request\<close>, which never raises.
\<close>

definition accept_challenge :: "poll_world \<Rightarrow> string \<Rightarrow> py_error option" where
  "accept_challenge w challenge_id =
     (case post_accept w challenge_id of
        RequestRaised \<Rightarrow> Some ClientError
      | Response status body \<Rightarrow> None)"

definition decline_challenge :: "poll_world \<Rightarrow> string \<Rightarrow> py_error option" where
  "decline_challenge w challenge_id =
     (case safe_request (post_decline w challenge_id) of
        None \<Rightarrow> None
      | Some body \<Rightarrow> None)"

text \<open>
  The loop over the pending challenges: the calls made, and the exception that leaves
  the loop, if any.
\<close>

fun handle_challenges ::
  "criteria \<Rightarrow> poll_world \<Rightarrow> challenge list \<Rightarrow> poll_effect list \<times> py_error option" where
  "handle_challenges crit w [] = ([], None)"
| "handle_challenges crit w (chal # rest) =
     (if fst (is_challenge_acceptable crit chal) then
        (case accept_challenge w (ch_id chal) of
           Some e \<Rightarrow> ([Accept (ch_id chal)], Some e)
         | None \<Rightarrow>
             (case handle_challenges crit w rest of
                (effs, r) \<Rightarrow> (Accept (ch_id chal) # effs, r)))
      else
        (case decline_challenge w (ch_id chal) of
           Some e \<Rightarrow> ([Decline (ch_id chal)], Some e)
         | None \<Rightarrow>
             (case handle_challenges crit w rest of
                (effs, r) \<Rightarrow> (Decline (ch_id chal) # effs, r))))"

text \<open>
  The registry \<open>self.active_games\<close>, by its keys in insertion order, and the calls made
  so far.
\<close>

record poller =
  active_games :: "string list"
  poll_trace :: "poll_effect list"

text \<open>
  The reconciliation under the lock: entries not in the playing list are deleted, then
  a task is created for each playing game that has no entry.
\<close>

fun add_games :: "game list \<Rightarrow> string list \<Rightarrow> string list \<times> poll_effect list" where
  "add_games [] active = (active, [])"
| "add_games (g # rest) active =
     (if g_gameId g \<in> set active then add_games rest active
      else (case add_games rest (active @ [g_gameId g]) of
              (active', effs) \<Rightarrow> (active', CreateTask (g_gameId g) # effs)))"

definition reconcile :: "game list \<Rightarrow> poller \<Rightarrow> poller" where
  "reconcile now st =
     (let current_ids = set (map g_gameId now);
          kept = filter (\<lambda>game_id. game_id \<in> current_ids) (active_games st)
      in case add_games now kept of
           (active', effs) \<Rightarrow> st\<lparr>active_games := active', poll_trace := poll_trace st @ effs\<rparr>)"

text \<open>
  One iteration of \<open>while True\<close>. Both fetches fall back to an empty list when
  \<open>safe_request\<close> returns \<open>None\<close>. An exception anywhere in the iteration is caught by
  the loop's \<open>except Exception\<close>, which logs it and sleeps five seconds: whatever came
  after the raising call in the iteration is not run.
\<close>

definition poll_cycle :: "criteria \<Rightarrow> poll_world \<Rightarrow> poller \<Rightarrow> poller" where
  "poll_cycle crit w st =
     (let challenges = dict_get (dict_get (safe_request (get_challenges w)) (Some [])) [];
          st1 = st\<lparr>poll_trace := poll_trace st @ [GetChallenges]\<rparr>
      in case handle_challenges crit w challenges of
           (effs, Some e) \<Rightarrow> st1\<lparr>poll_trace := poll_trace st1 @ effs @ [SleepSeconds 5]\<rparr>
         | (effs, None) \<Rightarrow>
             (let now = dict_get (dict_get (safe_request (get_playing w)) (Some [])) [];
                  st2 = st1\<lparr>poll_trace := poll_trace st1 @ effs @ [GetPlaying]\<rparr>;
                  st3 = reconcile now st2
              in st3\<lparr>poll_trace := poll_trace st3 @ [SleepJitter]\<rparr>))"


section \<open>Concrete inputs\<close>

text \<open>
  The challenges, sessions and worlds on which the theorems below are run. The criteria
  of the specification's examples allow the single time control 180 seconds with an
  increment of at least 2.
\<close>

definition spec_criteria :: criteria where
  "spec_criteria = ACCEPTANCE_CRITERIA\<lparr>time_controls := [(180, 2)]\<rparr>"

definition spec_challenge :: challenge where
  "spec_challenge =
     \<lparr> ch_id = ''c1'',
       ch_challenger = \<lparr>c_title = None, c_rated = None, c_rating = Some 1500\<rparr>,
       ch_rematch = None, ch_rated = Some False, ch_variant_key = Some ''standard'',
       ch_timeControl = \<lparr>tc_type = Some ''clock'', tc_daysPerTurn = None,
                         tc_limit = Some 180, tc_increment = Some 2\<rparr> \<rparr>"

definition rematch_challenge :: challenge where
  "rematch_challenge =
     \<lparr> ch_id = ''c2'',
       ch_challenger = \<lparr>c_title = Some ''GM'', c_rated = None, c_rating = Some 900\<rparr>,
       ch_rematch = Some True, ch_rated = Some True, ch_variant_key = Some ''atomic'',
       ch_timeControl = \<lparr>tc_type = Some ''clock'', tc_daysPerTurn = None,
                         tc_limit = Some 15, tc_increment = Some 0\<rparr> \<rparr>"

text \<open>
  A rated challenge as the server sends it: \<open>rated\<close> is a key of the challenge, and the
  \<open>challenger\<close> object has no such key.
\<close>

definition rated_challenge :: challenge where
  "rated_challenge =
     \<lparr> ch_id = ''c3'',
       ch_challenger = \<lparr>c_title = None, c_rated = None, c_rating = Some 1600\<rparr>,
       ch_rematch = None, ch_rated = Some True, ch_variant_key = Some ''standard'',
       ch_timeControl = \<lparr>tc_type = Some ''clock'', tc_daysPerTurn = None,
                         tc_limit = Some 300, tc_increment = Some 0\<rparr> \<rparr>"

definition demo_legal :: "list_board \<Rightarrow> string \<Rightarrow> bool" where
  "demo_legal b move = (move \<in> set [''e2e4'', ''e7e5'', ''g1f3''])"

definition demo_chess :: "list_board chess_lib" where
  "demo_chess = list_chess demo_legal"

definition board_after :: "string list \<Rightarrow> list_board" where
  "board_after ms = \<lparr>lb_fen = STARTING_FEN, lb_stack = ms\<rparr>"

definition session_with :: "bool \<Rightarrow> list_board \<Rightarrow> list_board bot" where
  "session_with white b =
     \<lparr>games = [''g1'' \<mapsto> \<lparr>gd_board = b, gd_is_white = white\<rparr>], engine = True, trace = []\<rparr>"

definition world_with ::
  "play_outcome \<Rightarrow> (nat \<Rightarrow> unit http_outcome) \<Rightarrow> snapshot http_outcome \<Rightarrow> bool
     \<Rightarrow> list_board world" where
  "world_with play post fetch launch_raises =
     \<lparr>engine_play = (\<lambda>b. play), post_move = post, fetch_game = fetch,
      engine_quit_raises = False, engine_launch_raises = launch_raises\<rparr>"


text \<open>
  A challenge from a bot, and a poll cycle in which the server lists an acceptable
  challenge and the bot's challenge, answers every decline request with a connection
  error, and reports one game in play. The answer to accept requests is left open.
\<close>

definition bot_challenge :: challenge where
  "bot_challenge =
     \<lparr> ch_id = ''c4'',
       ch_challenger = \<lparr>c_title = Some ''BOT'', c_rated = None, c_rating = Some 2000\<rparr>,
       ch_rematch = None, ch_rated = Some False, ch_variant_key = Some ''standard'',
       ch_timeControl = \<lparr>tc_type = Some ''clock'', tc_daysPerTurn = None,
                         tc_limit = Some 300, tc_increment = Some 0\<rparr> \<rparr>"

definition poll_world_with :: "(string \<Rightarrow> unit http_outcome) \<Rightarrow> poll_world" where
  "poll_world_with accept =
     \<lparr> get_challenges = Response 200 (Some [spec_challenge, bot_challenge]),
       post_accept = accept,
       post_decline = (\<lambda>challenge_id. RequestRaised),
       get_playing = Response 200 (Some [\<lparr>g_gameId = ''g1'', g_color = Some ''white''\<rparr>]) \<rparr>"

definition idle_poller :: poller where
  "idle_poller = \<lparr>active_games = [], poll_trace = []\<rparr>"

section \<open>Basic facts\<close>

lemmas filter_defs = is_challenge_acceptable_def check_regular_def parse_time_control_def
  rating_rejected_def tc_acceptable_def dict_get_def ACCEPTANCE_CRITERIA_def spec_criteria_def
  Let_def

lemmas demo_defs = demo_legal_def demo_chess_def board_after_def session_with_def world_with_def
  list_chess_def

lemmas run_defs = handle_initial_state_def handle_game_state_def handle_game_state_body_def
  compute_and_commit_def make_move_def reload_game_state_def restart_engine_def
  set_board_def emit_def dict_get_def dict_truthy_def split_ws_def is_space_def
  fen_white_to_move_def STARTING_FEN_def MAX_RETRIES_def Let_def process_event_def

lemmas poll_defs = poll_cycle_def reconcile_def accept_challenge_def decline_challenge_def
  safe_request_def poll_world_with_def idle_poller_def bot_challenge_def spec_challenge_def

lemma upt3: "[0..<3] = [0, 1, 2]"
  by (simp add: upt_rec)

lemma trace_emit [simp]: "trace (emit e st) = trace st @ [e]"
  by (simp add: emit_def)

lemma games_emit [simp]: "games (emit e st) = games st"
  by (simp add: emit_def)

lemma trace_set_board [simp]: "trace (set_board game_id b st) = trace st"
  by (simp add: set_board_def split: option.split)

lemma games_set_board:
  "games st game_id = Some gd \<Longrightarrow>
   games (set_board game_id b st) = (games st)(game_id \<mapsto> gd\<lparr>gd_board := b\<rparr>)"
  by (simp add: set_board_def)

lemma trace_reload [simp]:
  "trace (reload_game_state lib env game_id st) = trace st @ [FetchGame game_id]"
  by (simp add: reload_game_state_def Let_def split: http_outcome.split option.split)

lemma games_reload:
  assumes "games st game_id = Some gd"
    and "fetch_game env = Response status snap"
    and "Board_fen lib (dict_get (snap_fen snap) STARTING_FEN) = Some b"
  shows "games (reload_game_state lib env game_id st)
           = (games st)(game_id \<mapsto> gd\<lparr>gd_board := b\<rparr>)"
  using assms by (simp add: reload_game_state_def Let_def games_set_board)

section \<open>The challenge filter's rules\<close>

text \<open>
  C6. A challenge reaches the time-control rule when it is not a rematch, is not a
  denied bot, has an allowed variant, has the required rated flag, declares one of the
  three time-control types and has no rating outside the range. For such a challenge
  the time control is normalised to a pair (main time, increment): \<open>unlimited\<close> to
  (0, 0), \<open>correspondence\<close> to (daysPerTurn * 86400, 0) and \<open>clock\<close> to
  (limit, increment), an absent \<open>daysPerTurn\<close> counting as 1 and an absent \<open>limit\<close> or
  \<open>increment\<close> as 0. The filter accepts exactly when some allowed entry has that main
  time and a minimum increment not above the increment, and denies otherwise.
\<close>

theorem time_control_rule:
  assumes not_rematch: "dict_get (ch_rematch chal) False = False"
    and not_denied_bot: "\<not> (deny_bots crit \<and> c_title (ch_challenger chal) = Some ''BOT'')"
    and variant_ok: "ch_variant_key chal = Some v" "v \<in> set (variants crit)"
    and rated_ok: "dict_get (c_rated (ch_challenger chal)) False = rated crit"
    and type_ok: "tc_type (ch_timeControl chal)
                    \<in> {Some ''clock'', Some ''correspondence'', Some ''unlimited''}"
    and rating_ok: "rating_rejected crit (c_rating (ch_challenger chal)) = None"
  shows "\<exists>mainTime increment.
           parse_time_control (ch_timeControl chal) = Inr (mainTime, increment)
         \<and> (tc_type (ch_timeControl chal) = Some ''unlimited'' \<longrightarrow>
              (mainTime, increment) = (0, 0))
         \<and> (tc_type (ch_timeControl chal) = Some ''correspondence'' \<longrightarrow>
              (mainTime, increment)
                = (dict_get (tc_daysPerTurn (ch_timeControl chal)) 1 * 86400, 0))
         \<and> (tc_type (ch_timeControl chal) = Some ''clock'' \<longrightarrow>
              (mainTime, increment)
                = (dict_get (tc_limit (ch_timeControl chal)) 0,
                   dict_get (tc_increment (ch_timeControl chal)) 0))
         \<and> is_challenge_acceptable crit chal =
             (if \<exists>(t, i) \<in> set (time_controls crit). mainTime = t \<and> i \<le> increment
              then (True, ChallengeAccepted) else (False, BadTimeControl))"
proof -
  obtain p where p: "parse_time_control (ch_timeControl chal) = Inr p"
    using type_ok by (auto simp: parse_time_control_def)
  have acc: "tc_acceptable crit p
               = (\<exists>(t, i) \<in> set (time_controls crit). fst p = t \<and> i \<le> snd p)"
    by (simp add: tc_acceptable_def list_ex_iff)
  have "is_challenge_acceptable crit chal =
          (if tc_acceptable crit p then (True, ChallengeAccepted) else (False, BadTimeControl))"
    using assms p by (simp add: is_challenge_acceptable_def check_regular_def Let_def)
  moreover have "tc_type (ch_timeControl chal) = Some ''unlimited'' \<longrightarrow> p = (0, 0)"
    using p by (auto simp: parse_time_control_def)
  moreover have "tc_type (ch_timeControl chal) = Some ''correspondence'' \<longrightarrow>
       p = (dict_get (tc_daysPerTurn (ch_timeControl chal)) 1 * 86400, 0)"
    using p by (auto simp: parse_time_control_def)
  moreover have "tc_type (ch_timeControl chal) = Some ''clock'' \<longrightarrow>
       p = (dict_get (tc_limit (ch_timeControl chal)) 0,
            dict_get (tc_increment (ch_timeControl chal)) 0)"
    using p by (auto simp: parse_time_control_def)
  ultimately show ?thesis
    using p acc by (cases p) auto
qed

text \<open>
  The rule at the specification's examples: 180 seconds with increment 2 is accepted
  against the allowed entry (180, 2), and the same challenge with increment 1 is denied.
\<close>

theorem time_control_rule_witness:
  "parse_time_control (ch_timeControl spec_challenge) = Inr (180, 2)
   \<and> is_challenge_acceptable spec_criteria spec_challenge = (True, ChallengeAccepted)
   \<and> is_challenge_acceptable spec_criteria
        (spec_challenge\<lparr>ch_timeControl :=
           (ch_timeControl spec_challenge)\<lparr>tc_increment := Some 1\<rparr>\<rparr>)
      = (False, BadTimeControl)"
  using time_control_rule [of spec_challenge spec_criteria "''standard''"]
    time_control_rule
      [of "spec_challenge\<lparr>ch_timeControl :=
             (ch_timeControl spec_challenge)\<lparr>tc_increment := Some 1\<rparr>\<rparr>"
          spec_criteria "''standard''"]
  by (simp add: spec_challenge_def filter_defs)

text \<open>
  C7. For a challenge marked as a rematch the filter denies when rematches are disabled,
  denies when bots are denied and the challenger's title is \<open>BOT\<close>, and accepts
  otherwise. The variant, the time control, the rated flags and the challenger's rating
  are not looked at: replacing them by any other values leaves the answer as it is.
\<close>

theorem rematch_rule:
  assumes "ch_rematch chal = Some True"
  shows "is_challenge_acceptable crit chal =
           (if \<not> allow_rematches crit then (False, RematchesDisabled)
            else if deny_bots crit \<and> c_title (ch_challenger chal) = Some ''BOT''
            then (False, RematchBotDenied)
            else (True, RematchAccepted))
       \<and> (\<forall>variant tc top_rated rating challenger_rated.
            is_challenge_acceptable crit
              (chal\<lparr> ch_variant_key := variant, ch_timeControl := tc, ch_rated := top_rated,
                     ch_challenger := (ch_challenger chal)
                        \<lparr> c_rating := rating, c_rated := challenger_rated \<rparr> \<rparr>)
            = is_challenge_acceptable crit chal)"
  using assms by (simp add: is_challenge_acceptable_def dict_get_def)

text \<open>
  A rematch from a titled player who is not a bot, in a variant that is not allowed and
  with a rating below the range, is accepted.
\<close>

theorem rematch_rule_witness:
  "is_challenge_acceptable ACCEPTANCE_CRITERIA rematch_challenge = (True, RematchAccepted)"
  using rematch_rule [of rematch_challenge ACCEPTANCE_CRITERIA]
  by (simp add: rematch_challenge_def ACCEPTANCE_CRITERIA_def)


section \<open>Move submission\<close>

lemma loop_all_raise:
  "\<forall>j \<in> set atts. post_move env j = RequestRaised \<Longrightarrow>
   make_move_loop lib env game_id move (atts @ rest) st =
   make_move_loop lib env game_id move rest
     (st\<lparr>trace := trace st @ concat (replicate (length atts) [PostMove game_id move, Sleep 1])\<rparr>)"
proof (induction atts arbitrary: st)
  case Nil
  then show ?case by simp
next
  case (Cons a atts)
  then show ?case by (simp add: emit_def)
qed

text \<open>
  C4. \<open>make_move\<close> tries the request at most \<open>MAX_RETRIES\<close> = 3 times. When the first
  \<open>k\<close> attempts raise and attempt \<open>k\<close> is answered with a status other than 200, it
  returns \<open>False\<close> at once: each of the \<open>k\<close> failed attempts was followed by a sleep of
  one second, and nothing follows the rejected attempt. When all three attempts raise it
  returns \<open>False\<close> after three requests, each followed by a sleep of one second. The
  state is otherwise as before.
\<close>

theorem submit_rule:
  "MAX_RETRIES = 3
   \<and> (\<forall>k status body.
         k < MAX_RETRIES \<and> (\<forall>j < k. post_move env j = RequestRaised)
         \<and> post_move env k = Response status body \<and> status \<noteq> 200
         \<longrightarrow> make_move lib env game_id move st =
               (False, st\<lparr>trace := trace st
                   @ concat (replicate k [PostMove game_id move, Sleep 1])
                   @ [PostMove game_id move]\<rparr>))
   \<and> ((\<forall>j < MAX_RETRIES. post_move env j = RequestRaised)
         \<longrightarrow> make_move lib env game_id move st =
               (False, st\<lparr>trace := trace st
                   @ concat (replicate MAX_RETRIES [PostMove game_id move, Sleep 1])\<rparr>))"
proof (intro conjI allI impI)
  show "MAX_RETRIES = 3" by (simp add: MAX_RETRIES_def)
next
  fix k status body
  assume h: "k < MAX_RETRIES \<and> (\<forall>j < k. post_move env j = RequestRaised)
         \<and> post_move env k = Response status body \<and> status \<noteq> 200"
  then have split: "[0..<MAX_RETRIES] = [0..<k] @ k # [Suc k..<MAX_RETRIES]"
    by (metis upt_conv_Cons upt_add_eq_append le_add_diff_inverse less_imp_le_nat zero_le)
  have raised: "\<forall>j \<in> set [0..<k]. post_move env j = RequestRaised"
    using h by simp
  show "make_move lib env game_id move st =
               (False, st\<lparr>trace := trace st
                   @ concat (replicate k [PostMove game_id move, Sleep 1])
                   @ [PostMove game_id move]\<rparr>)"
    unfolding make_move_def split
    using h by (simp add: loop_all_raise [OF raised] emit_def)
next
  assume h: "\<forall>j < MAX_RETRIES. post_move env j = RequestRaised"
  then have raised: "\<forall>j \<in> set [0..<MAX_RETRIES]. post_move env j = RequestRaised"
    by simp
  show "make_move lib env game_id move st =
               (False, st\<lparr>trace := trace st
                   @ concat (replicate MAX_RETRIES [PostMove game_id move, Sleep 1])\<rparr>)"
    unfolding make_move_def
    using loop_all_raise [OF raised, of lib game_id move "[]" st] by simp
qed

text \<open>
  The first attempt raises, the second is answered with status 400: two requests, one
  sleep between them, and the result is \<open>False\<close>.
\<close>

theorem submit_rule_witness:
  "make_move demo_chess
     (world_with PlayTimeout (\<lambda>n. if n = 0 then RequestRaised else Response 400 ()) RequestRaised False)
     ''g1'' ''e2e4'' (session_with True (board_after []))
   = (False, (session_with True (board_after []))
        \<lparr>trace := [PostMove ''g1'' ''e2e4'', Sleep 1, PostMove ''g1'' ''e2e4'']\<rparr>)"
proof -
  let ?w = "world_with PlayTimeout (\<lambda>n. if n = 0 then RequestRaised else Response 400 ()) RequestRaised False"
  have h: "(1::nat) < MAX_RETRIES \<and> (\<forall>j < 1. post_move ?w j = RequestRaised)
         \<and> post_move ?w 1 = Response 400 () \<and> (400::int) \<noteq> 200"
    by (simp add: MAX_RETRIES_def world_with_def)
  from submit_rule [of ?w demo_chess "''g1''" "''e2e4''" "session_with True (board_after [])"]
  have "make_move demo_chess ?w ''g1'' ''e2e4'' (session_with True (board_after []))
     = (False, (session_with True (board_after []))\<lparr>trace := trace (session_with True (board_after []))
                   @ concat (replicate 1 [PostMove ''g1'' ''e2e4'', Sleep 1])
                   @ [PostMove ''g1'' ''e2e4'']\<rparr>)"
    using h by blast
  then show ?thesis by (simp add: session_with_def)
qed

section \<open>Reloading a game\<close>

text \<open>
  C10. When the request for the game answers with a body that has no \<open>fen\<close> key,
  \<open>reload_game_state\<close> replaces the game's board, whatever it was, by the board of
  the standard starting position (the library accepting that FEN); the only call made
  is the request.
\<close>

theorem reload_without_fen:
  assumes "games st game_id = Some gd"
    and "fetch_game env = Response status snap"
    and "snap_fen snap = None"
    and "Board_fen lib STARTING_FEN = Some start"
  shows "reload_game_state lib env game_id st
           = st\<lparr>games := (games st)(game_id \<mapsto> gd\<lparr>gd_board := start\<rparr>),
                 trace := trace st @ [FetchGame game_id]\<rparr>"
  using assms by (simp add: reload_game_state_def Let_def dict_get_def set_board_def emit_def)

text \<open>
  A session two moves into the game is reset to the starting position.
\<close>

theorem reload_without_fen_witness:
  "reload_game_state demo_chess
     (world_with PlayTimeout (\<lambda>n. RequestRaised) (Response 200 \<lparr>snap_fen = None\<rparr>) False)
     ''g1'' (session_with True (board_after [''e2e4'', ''e7e5'']))
   = (session_with True (board_after []))\<lparr>trace := [FetchGame ''g1'']\<rparr>"
  using reload_without_fen [of "session_with True (board_after [''e2e4'', ''e7e5''])" "''g1''"
      "\<lparr>gd_board = board_after [''e2e4'', ''e7e5''], gd_is_white = True\<rparr>"
      "world_with PlayTimeout (\<lambda>n. RequestRaised) (Response 200 \<lparr>snap_fen = None\<rparr>) False"
      200 "\<lparr>snap_fen = None\<rparr>" demo_chess "board_after []"]
  by (simp add: demo_defs)

section \<open>Synchronising with the server's move list\<close>

lemma apply_moves_append:
  "apply_moves lib b (pre @ rest) =
     (case apply_moves lib b pre of
        (b', None) \<Rightarrow> apply_moves lib b' rest
      | (b', Some e) \<Rightarrow> (b', Some e))"
  by (induction pre arbitrary: b) (auto split: sum.split)



lemma handle_game_state_synced:
  assumes "games st game_id = Some gd"
    and "\<not> (length (split_ws (dict_get moves [])) < length (stack_uci lib (gd_board gd))
         \<or> take (length (stack_uci lib (gd_board gd))) (split_ws (dict_get moves []))
             \<noteq> stack_uci lib (gd_board gd))"
    and "apply_moves lib (gd_board gd)
           (drop (length (stack_uci lib (gd_board gd))) (split_ws (dict_get moves []))) = r"
  shows "handle_game_state lib env moves game_id st =
           (case r of
              (b, None) \<Rightarrow> (fst (compute_and_commit lib env game_id b (set_board game_id b st)), None)
            | (b, Some IllegalMoveError) \<Rightarrow>
                (reload_game_state lib env game_id (set_board game_id b st), None)
            | (b, Some InvalidMoveError) \<Rightarrow> (set_board game_id b st, None))"
  using assms
  by (auto simp add: handle_game_state_def handle_game_state_body_def Let_def
      split: prod.split option.split push_error.split)




text \<open>
  A move that \<open>push_uci\<close> rejects with \<open>InvalidMoveError\<close> (not UCI syntax) is not
  caught by the loop's \<open>except chess.IllegalMoveError\<close>: it reaches the outer handler,
  so the moves before it stay pushed, and there is neither a reload nor a computation.
\<close>

lemma invalid_move_stops_sync:
  assumes game: "games st game_id = Some gd"
    and L: "L = stack_uci lib (gd_board gd)"
    and M: "M = split_ws (dict_get moves [])"
    and nd: "\<not> (length M < length L \<or> take (length L) M \<noteq> L)"
    and suffix: "drop (length L) M = pre @ bad # post"
    and pre: "apply_moves lib (gd_board gd) pre = (b, None)"
    and bad: "push_uci lib b bad = Inl InvalidMoveError"
  shows "handle_game_state lib env moves game_id st = (set_board game_id b st, None)"
proof -
  have "apply_moves lib (gd_board gd) (drop (length L) M) = (b, Some InvalidMoveError)"
    using suffix pre bad by (simp add: apply_moves_append)
  then show ?thesis
    using handle_game_state_synced [OF game, of moves lib "(b, Some InvalidMoveError)" env] nd L M
    by simp
qed




section \<open>Committing a computed move\<close>

lemma make_move_loop_failed:
  "\<not> fst (make_move_loop lib env game_id move atts st) \<Longrightarrow>
   games (snd (make_move_loop lib env game_id move atts st)) = games st"
proof (induction atts arbitrary: st)
  case Nil
  then show ?case by simp
next
  case (Cons a atts)
  show ?case
  proof (cases "post_move env a")
    case RequestRaised
    with Cons show ?thesis by (simp add: Let_def)
  next
    case (Response status body)
    with Cons show ?thesis
      by (simp add: Let_def split: if_splits option.splits sum.splits push_error.splits)
  qed
qed

lemma make_move_loop_done:
  assumes "games st game_id = Some gd" and "push_uci lib (gd_board gd) move = Inr b'"
  shows "fst (make_move_loop lib env game_id move atts st) \<Longrightarrow>
         games (snd (make_move_loop lib env game_id move atts st))
           = (games st)(game_id \<mapsto> gd\<lparr>gd_board := b'\<rparr>)"
  using assms
proof (induction atts arbitrary: st)
  case Nil
  then show ?case by simp
next
  case (Cons a atts)
  show ?case
  proof (cases "post_move env a")
    case RequestRaised
    with Cons.prems Cons.IH [of "emit (Sleep 1) (emit (PostMove game_id move) st)"]
    show ?thesis by (simp add: Let_def)
  next
    case (Response status body)
    with Cons.prems show ?thesis
      by (simp add: Let_def games_set_board split: if_splits)
  qed
qed

text \<open>
  C5. The move computation and commit, run on a session whose board is \<open>b\<close>. On a
  timeout, on a result without a move, on a move that is not legal on \<open>b\<close> (no request
  is made then), and on a legal move whose submission returns \<open>False\<close>, the games and
  their boards are as before. On a legal move whose submission returns \<open>True\<close>, the
  session's board is the board after pushing that move on \<open>b\<close>, and no other game is
  touched.
\<close>

theorem commit_rule:
  assumes game: "games st game_id = Some gd" and board: "gd_board gd = b"
  shows
   "(engine_play env b = PlayTimeout \<longrightarrow>
       games (fst (compute_and_commit lib env game_id b st)) = games st)
  \<and> (engine_play env b = PlayResult None \<longrightarrow>
       games (fst (compute_and_commit lib env game_id b st)) = games st)
  \<and> (\<forall>m. engine_play env b = PlayResult (Some m) \<and> \<not> in_legal_moves lib b m \<longrightarrow>
       fst (compute_and_commit lib env game_id b st) = emit EnginePlay st)
  \<and> (\<forall>m. engine_play env b = PlayResult (Some m) \<and> in_legal_moves lib b m
          \<and> \<not> fst (make_move lib env game_id m (emit EnginePlay st)) \<longrightarrow>
       games (fst (compute_and_commit lib env game_id b st)) = games st)
  \<and> (\<forall>m b'. engine_play env b = PlayResult (Some m) \<and> in_legal_moves lib b m
          \<and> push_uci lib b m = Inr b'
          \<and> fst (make_move lib env game_id m (emit EnginePlay st)) \<longrightarrow>
       games (fst (compute_and_commit lib env game_id b st))
         = (games st)(game_id \<mapsto> gd\<lparr>gd_board := b'\<rparr>))"
proof (intro conjI impI allI)
  show "engine_play env b = PlayTimeout \<Longrightarrow>
       games (fst (compute_and_commit lib env game_id b st)) = games st"
    by (simp add: compute_and_commit_def Let_def)
  show "engine_play env b = PlayResult None \<Longrightarrow>
       games (fst (compute_and_commit lib env game_id b st)) = games st"
    by (simp add: compute_and_commit_def Let_def)
next
  fix m
  assume "engine_play env b = PlayResult (Some m) \<and> \<not> in_legal_moves lib b m"
  then show "fst (compute_and_commit lib env game_id b st) = emit EnginePlay st"
    by (simp add: compute_and_commit_def Let_def)
next
  fix m
  assume h: "engine_play env b = PlayResult (Some m) \<and> in_legal_moves lib b m
          \<and> \<not> fst (make_move lib env game_id m (emit EnginePlay st))"
  then have "games (snd (make_move lib env game_id m (emit EnginePlay st))) = games (emit EnginePlay st)"
    unfolding make_move_def by (intro make_move_loop_failed) simp
  with h show "games (fst (compute_and_commit lib env game_id b st)) = games st"
    by (simp add: compute_and_commit_def Let_def)
next
  fix m b'
  assume h: "engine_play env b = PlayResult (Some m) \<and> in_legal_moves lib b m
          \<and> push_uci lib b m = Inr b'
          \<and> fst (make_move lib env game_id m (emit EnginePlay st))"
  have g: "games (emit EnginePlay st) game_id = Some gd" using game by simp
  have "games (snd (make_move lib env game_id m (emit EnginePlay st)))
          = (games (emit EnginePlay st))(game_id \<mapsto> gd\<lparr>gd_board := b'\<rparr>)"
    unfolding make_move_def
    using h board by (intro make_move_loop_done [OF g]) (simp_all add: make_move_def)
  with h show "games (fst (compute_and_commit lib env game_id b st))
         = (games st)(game_id \<mapsto> gd\<lparr>gd_board := b'\<rparr>)"
    by (simp add: compute_and_commit_def Let_def)
qed


text \<open>
  A legal engine move whose submission is answered with status 200 is on the board
  afterwards; the same move answered with status 400 is not; a timeout leaves the board
  as it was.
\<close>

theorem commit_rule_witness:
  "games (fst (compute_and_commit demo_chess
        (world_with (PlayResult (Some ''e2e4'')) (\<lambda>n. Response 200 ()) RequestRaised False)
        ''g1'' (board_after []) (session_with True (board_after []))))
     = [''g1'' \<mapsto> \<lparr>gd_board = board_after [''e2e4''], gd_is_white = True\<rparr>]
   \<and> games (fst (compute_and_commit demo_chess
        (world_with (PlayResult (Some ''e2e4'')) (\<lambda>n. Response 400 ()) RequestRaised False)
        ''g1'' (board_after []) (session_with True (board_after []))))
     = [''g1'' \<mapsto> \<lparr>gd_board = board_after [], gd_is_white = True\<rparr>]
   \<and> games (fst (compute_and_commit demo_chess
        (world_with PlayTimeout (\<lambda>n. Response 200 ()) RequestRaised False)
        ''g1'' (board_after []) (session_with True (board_after []))))
     = [''g1'' \<mapsto> \<lparr>gd_board = board_after [], gd_is_white = True\<rparr>]"
proof -
  let ?st = "session_with True (board_after [])"
  let ?gd = "\<lparr>gd_board = board_after [], gd_is_white = True\<rparr>"
  let ?ok = "world_with (PlayResult (Some ''e2e4'')) (\<lambda>n. Response 200 ()) RequestRaised False"
  let ?rej = "world_with (PlayResult (Some ''e2e4'')) (\<lambda>n. Response 400 ()) RequestRaised False"
  let ?late = "world_with PlayTimeout (\<lambda>n. Response 200 ()) RequestRaised False"
  have g: "games ?st ''g1'' = Some ?gd"
    by (simp add: session_with_def)
  have b: "gd_board ?gd = board_after []"
    by simp
  have sent: "engine_play ?ok (board_after []) = PlayResult (Some ''e2e4'')
              \<and> in_legal_moves demo_chess (board_after []) ''e2e4''
              \<and> push_uci demo_chess (board_after []) ''e2e4'' = Inr (board_after [''e2e4''])
              \<and> fst (make_move demo_chess ?ok ''g1'' ''e2e4'' (emit EnginePlay ?st))"
    by (simp add: demo_defs run_defs upt3)
  have refused: "engine_play ?rej (board_after []) = PlayResult (Some ''e2e4'')
              \<and> in_legal_moves demo_chess (board_after []) ''e2e4''
              \<and> \<not> fst (make_move demo_chess ?rej ''g1'' ''e2e4'' (emit EnginePlay ?st))"
    by (simp add: demo_defs run_defs upt3)
  have timed_out: "engine_play ?late (board_after []) = PlayTimeout"
    by (simp add: world_with_def)
  have 1: "games (fst (compute_and_commit demo_chess ?ok ''g1'' (board_after []) ?st))
             = (games ?st)(''g1'' \<mapsto> ?gd\<lparr>gd_board := board_after [''e2e4'']\<rparr>)"
    using commit_rule [OF g b, of ?ok demo_chess, THEN conjunct2, THEN conjunct2, THEN conjunct2,
        THEN conjunct2, THEN spec, THEN spec, THEN mp, OF sent] .
  have 2: "games (fst (compute_and_commit demo_chess ?rej ''g1'' (board_after []) ?st)) = games ?st"
    using commit_rule [OF g b, of ?rej demo_chess, THEN conjunct2, THEN conjunct2, THEN conjunct2,
        THEN conjunct1, THEN spec, THEN mp, OF refused] .
  have 3: "games (fst (compute_and_commit demo_chess ?late ''g1'' (board_after []) ?st)) = games ?st"
    using commit_rule [OF g b, of ?late demo_chess, THEN conjunct1, THEN mp, OF timed_out] .
  have 4: "games ?st = [''g1'' \<mapsto> ?gd]"
    "(games ?st)(''g1'' \<mapsto> ?gd\<lparr>gd_board := board_after [''e2e4'']\<rparr>)
       = [''g1'' \<mapsto> \<lparr>gd_board = board_after [''e2e4''], gd_is_white = True\<rparr>]"
    by (simp_all add: session_with_def)
  show ?thesis
    using 1 2 3 4 by simp
qed

section \<open>Where the code departs from the specification\<close>

text \<open>
  What the rated-flag rule does: it compares the \<open>rated\<close> key of the \<open>challenger\<close>
  object, read with the default \<open>False\<close>, with the required flag, after the bot and
  variant rules and before the rules on the time control and the rating.
\<close>

lemma rated_rule_reads_challenger:
  assumes "dict_get (ch_rematch chal) False = False"
    and "\<not> (deny_bots crit \<and> c_title (ch_challenger chal) = Some ''BOT'')"
    and "ch_variant_key chal = Some v" and "v \<in> set (variants crit)"
    and "dict_get (c_rated (ch_challenger chal)) False \<noteq> rated crit"
  shows "is_challenge_acceptable crit chal
           = (False, UnsupportedMode (dict_get (c_rated (ch_challenger chal)) False))"
  using assms by (simp add: is_challenge_acceptable_def check_regular_def Let_def)

text \<open>
  C8. The rated-flag rule is to deny a challenge whose requested rated flag differs from
  the required one. The code reads the flag from the \<open>challenger\<close> object, where the
  server does not put it, and so finds \<open>False\<close>: a rated challenge (the challenge's
  \<open>rated\<close> key is true) that passes every other rule is accepted although the
  criteria require unrated games.
\<close>

theorem rated_flag_not_read:
  "ch_rated rated_challenge = Some True \<and> rated ACCEPTANCE_CRITERIA = False
   \<and> is_challenge_acceptable ACCEPTANCE_CRITERIA rated_challenge = (True, ChallengeAccepted)"
  by (simp add: rated_challenge_def filter_defs)

text \<open>
  C2. Move computation is to run only when it is the session's turn. In
  \<open>handle_initial_state\<close> the condition tests the dictionary \<open>game_data\<close> where the
  session's colour was meant, so it holds exactly when White is to move: a session
  playing Black computes and submits a move for White at the start of the game. In
  \<open>handle_game_state\<close> the turn is not tested at all: a session playing White, told of
  its own move \<open>e2e4\<close>, computes and submits a move for Black.
\<close>

theorem computes_out_of_turn:
  "games (session_with False (board_after [])) ''g1''
     = Some \<lparr>gd_board = board_after [], gd_is_white = False\<rparr>
   \<and> turn demo_chess (board_after []) = WHITE
   \<and> handle_initial_state demo_chess
       (world_with (PlayResult (Some ''e2e4'')) (\<lambda>n. Response 400 ()) RequestRaised False)
       None ''g1'' (session_with False (board_after []))
     = ((session_with False (board_after []))
          \<lparr>trace := [EnginePlay, PostMove ''g1'' ''e2e4'']\<rparr>, None)
   \<and> turn demo_chess (board_after [''e2e4'']) = BLACK
   \<and> handle_game_state demo_chess
       (world_with (PlayResult (Some ''e7e5'')) (\<lambda>n. Response 400 ()) RequestRaised False)
       (Some ''e2e4'') ''g1'' (session_with True (board_after [''e2e4'']))
     = ((session_with True (board_after [''e2e4'']))
          \<lparr>trace := [EnginePlay, PostMove ''g1'' ''e7e5'']\<rparr>, None)"
  by (simp add: demo_defs run_defs upt3)

text \<open>
  C3. A failure to relaunch the engine is to end the whole agent. \<open>restart_engine\<close>
  re-raises it, but the call stands inside the outer \<open>try\<close> of \<open>handle_game_state\<close>,
  whose \<open>except Exception\<close> logs it: the handler returns normally and the game's loop
  goes on to the next event.
\<close>

theorem restart_failure_swallowed:
  "restart_engine
     (world_with PlayEngineTerminated (\<lambda>n. RequestRaised) RequestRaised True)
     (emit EnginePlay (session_with True (board_after [])))
   = ((session_with True (board_after []))
        \<lparr>trace := [EnginePlay, EngineQuit, Sleep 1, EngineLaunch]\<rparr>, Some LaunchError)
   \<and> handle_game_state demo_chess
       (world_with PlayEngineTerminated (\<lambda>n. RequestRaised) RequestRaised True)
       (Some []) ''g1'' (session_with True (board_after []))
     = ((session_with True (board_after []))
          \<lparr>trace := [EnginePlay, EngineQuit, Sleep 1, EngineLaunch]\<rparr>, None)
   \<and> process_event demo_chess
       (world_with PlayEngineTerminated (\<lambda>n. RequestRaised) RequestRaised True)
       ''g1'' (GameState (Some [])) (session_with True (board_after []))
     = (True, (session_with True (board_after []))
          \<lparr>trace := [EnginePlay, EngineQuit, Sleep 1, EngineLaunch]\<rparr>)"
  by (simp add: demo_defs run_defs upt3)

text \<open>
  What the poller does keep to: declining never raises, and a failed fetch of the
  challenge list is an empty list, after which the playing list is still reconciled.
\<close>

lemma decline_never_raises: "decline_challenge w challenge_id = None"
  by (simp add: decline_challenge_def split: option.split)

lemma failed_challenge_fetch:
  assumes "safe_request (get_challenges w) = None"
  shows "poll_cycle crit w st =
           (reconcile (dict_get (dict_get (safe_request (get_playing w)) (Some [])) [])
              (st\<lparr>poll_trace := poll_trace st @ [GetChallenges, GetPlaying]\<rparr>))
           \<lparr>poll_trace := poll_trace
              (reconcile (dict_get (dict_get (safe_request (get_playing w)) (Some [])) [])
                 (st\<lparr>poll_trace := poll_trace st @ [GetChallenges, GetPlaying]\<rparr>))
              @ [SleepJitter]\<rparr>"
  using assms by (simp add: poll_cycle_def dict_get_def Let_def)

text \<open>
  C9. A failed accept or decline is not to abort the rest of the cycle.
  \<open>decline_challenge\<close> goes through \<open>safe_request\<close>; \<open>accept_challenge\<close> does not. When
  the accept request raises, the exception reaches the \<open>except Exception\<close> of the loop:
  the second challenge is not handled, the playing list is not fetched, no game task is
  created, and the cycle ends with the five-second sleep. With the accept request
  answered, the same cycle declines the second challenge and creates the task.
\<close>

theorem accept_failure_aborts_cycle:
  "poll_cycle ACCEPTANCE_CRITERIA (poll_world_with (\<lambda>challenge_id. RequestRaised)) idle_poller
     = \<lparr>active_games = [], poll_trace = [GetChallenges, Accept ''c1'', SleepSeconds 5]\<rparr>
   \<and> poll_cycle ACCEPTANCE_CRITERIA (poll_world_with (\<lambda>challenge_id. Response 200 ())) idle_poller
     = \<lparr>active_games = [''g1''],
        poll_trace = [GetChallenges, Accept ''c1'', Decline ''c4'', GetPlaying,
                      CreateTask ''g1'', SleepJitter]\<rparr>"
  by (simp add: poll_defs filter_defs)

end
